theory Spec2Isabelle
  imports Main "HOL-Library.Word" "HOL-Library.AList" "HOL-Library.Char_ord" "HOL-Library.List_Lexorder"
begin

section \<open>Component identifiers and the identifier generator\<close>

text \<open>
  \<^verbatim>\<open>Worker_ComponentId\<close> is a 32-bit unsigned integer; 0 is
  \<^verbatim>\<open>SpatialConstants::INVALID_COMPONENT_ID\<close>, the "unassigned" sentinel tested by
  \<^verbatim>\<open>if (ComponentId == 0)\<close> in the generator.
\<close>

type_synonym Worker_ComponentId = "32 word"

definition INVALID_COMPONENT_ID :: Worker_ComponentId where
  "INVALID_COMPONENT_ID = 0"

datatype error = IdSpaceExhausted

record FComponentIdGenerator =
  NextId :: Worker_ComponentId

text \<open>
  Modelled from the spec: \<^verbatim>\<open>Utils/ComponentIdGenerator.h\<close> (the class
  \<^verbatim>\<open>FComponentIdGenerator\<close>) is included by the schema generator but is not among the
  sources. The specification (4.2) gives its contract: it is constructed from a starting
  counter value; \<^verbatim>\<open>next()\<close> returns the current counter value, then increments it;
  \<^verbatim>\<open>peek()\<close> returns the current value without mutating it; there is no wrap-around, an
  exhausted identifier space is the fatal condition \<^verbatim>\<open>IdSpaceExhausted\<close> (4.4). The counter
  is exhausted when it holds the largest 32-bit value, which cannot be incremented.
  \<^verbatim>\<open>Peek\<close> returns the generator next to the value, so that "without mutating" is a
  statement about the model and not only about its type.
\<close>

definition Next :: "FComponentIdGenerator \<Rightarrow> error + (Worker_ComponentId \<times> FComponentIdGenerator)" where
  "Next g = (if NextId g = - 1 then Inl IdSpaceExhausted
             else Inr (NextId g, g\<lparr>NextId := NextId g + 1\<rparr>))"

definition Peek :: "FComponentIdGenerator \<Rightarrow> Worker_ComponentId \<times> FComponentIdGenerator" where
  "Peek g = (NextId g, g)"

text \<open>A finite sequence of \<^verbatim>\<open>next()\<close> calls on one generator, collecting what they return.\<close>

fun NextN :: "nat \<Rightarrow> FComponentIdGenerator \<Rightarrow> error + (Worker_ComponentId list \<times> FComponentIdGenerator)" where
  "NextN 0 g = Inr ([], g)"
| "NextN (Suc n) g =
     (case Next g of
        Inl e \<Rightarrow> Inl e
      | Inr (v, g') \<Rightarrow>
          (case NextN n g' of
             Inl e \<Rightarrow> Inl e
           | Inr (vs, g'') \<Rightarrow> Inr (v # vs, g'')))"


section \<open>Strings, names and containers\<close>

text \<open>
  \<^verbatim>\<open>FString::Printf(TEXT("%d"), n)\<close> for a non-negative counter: the decimal digits of \<open>n\<close>.
  \<^verbatim>\<open>FChar::IsDigit\<close> tests for one of the ten decimal digits.
\<close>

definition Digits :: string where
  "Digits = ''0123456789''"

definition IsDigit :: "char \<Rightarrow> bool" where
  "IsDigit c = (c \<in> set Digits)"

fun FromInt :: "nat \<Rightarrow> string" where
  "FromInt n = (if n < 10 then [Digits ! n] else FromInt (n div 10) @ [Digits ! (n mod 10)])"

declare FromInt.simps [simp del]

text \<open>
  \<^verbatim>\<open>TMap\<close> is an association list with one entry per key: \<^verbatim>\<open>Add\<close> replaces the value of
  a key that is present and appends otherwise; \<^verbatim>\<open>Contains\<close> and \<^verbatim>\<open>FindRef\<close> look a key up,
  \<^verbatim>\<open>FindRef\<close> giving the default-constructed value (0 for a component id) when it is
  missing. \<^verbatim>\<open>TSet::Add\<close> keeps one copy of each element.
\<close>

definition TMapAdd :: "'k \<Rightarrow> 'v \<Rightarrow> ('k \<times> 'v) list \<Rightarrow> ('k \<times> 'v) list" where
  "TMapAdd k v m = AList.update k v m"

definition TMapContains :: "('k \<times> 'v) list \<Rightarrow> 'k \<Rightarrow> bool" where
  "TMapContains m k = (map_of m k \<noteq> None)"

definition FindRef :: "('k \<times> Worker_ComponentId) list \<Rightarrow> 'k \<Rightarrow> Worker_ComponentId" where
  "FindRef m k = (case map_of m k of None \<Rightarrow> 0 | Some v \<Rightarrow> v)"

definition TSetAdd :: "'a \<Rightarrow> 'a list \<Rightarrow> 'a list" where
  "TSetAdd x xs = (if x \<in> set xs then xs else xs @ [x])"

section \<open>Type information handed over by the reflection system\<close>

text \<open>
  What the generator reads of a property, of a subobject and of a class. The replicated
  data is one property list per replicated property group, in the order of
  \<^verbatim>\<open>GetAllReplicatedPropertyGroups()\<close>. A class carries the type information
  \<^verbatim>\<open>CreateUnrealTypeInfo\<close> builds for it, the outcome of \<^verbatim>\<open>IsSupportedClass\<close>, and the
  class-typed nodes \<^verbatim>\<open>VisitAllObjects\<close> reaches in its type information, in visiting order.
  A class is identified by its path name, as a \<^verbatim>\<open>UClass*\<close> is by its address.
\<close>

record FUnrealProperty =
  PropertyName :: string
  PropertyPathName :: string

record FSubobject =
  SubobjectName :: string
  ObjectPathName :: string

record FUnrealType =
  ClassName :: string
  ClassPathName :: string
  IsChildOfAActor :: bool
  GetFlatRepData :: "FUnrealProperty list list"
  GetFlatHandoverData :: "FUnrealProperty list"
  GetAllSubobjects :: "FSubobject list"

record NestedClass =
  NestedTypeInfo :: FUnrealType
  NestedIsSupported :: bool

record UClass =
  CreateUnrealTypeInfo :: FUnrealType
  IsSupportedClass :: bool
  VisitAllObjects :: "NestedClass list"

definition GetPathName :: "UClass \<Rightarrow> string" where
  "GetPathName Class = ClassPathName (CreateUnrealTypeInfo Class)"

section \<open>Schema data, the database and the generator's global state\<close>

datatype ESchemaComponentType = SCHEMA_Data | SCHEMA_OwnerOnly | SCHEMA_Handover

text \<open>\<^verbatim>\<open>Worker_ComponentId SchemaComponents[SCHEMA_Count]\<close>: one identifier per component type.\<close>

record FSchemaComponents =
  DataComponent :: Worker_ComponentId
  OwnerOnlyComponent :: Worker_ComponentId
  HandoverComponent :: Worker_ComponentId

fun SchemaComponentAt :: "FSchemaComponents \<Rightarrow> ESchemaComponentType \<Rightarrow> Worker_ComponentId" where
  "SchemaComponentAt c SCHEMA_Data = DataComponent c"
| "SchemaComponentAt c SCHEMA_OwnerOnly = OwnerOnlyComponent c"
| "SchemaComponentAt c SCHEMA_Handover = HandoverComponent c"

definition AllSchemaComponentTypes :: "ESchemaComponentType list" where
  "AllSchemaComponentTypes = [SCHEMA_Data, SCHEMA_OwnerOnly, SCHEMA_Handover]"

record FActorSpecificSubobjectSchemaData =
  SubobjectClassPath :: string
  SubobjectSchemaComponents :: FSchemaComponents

record FActorSchemaData =
  ActorGeneratedSchemaName :: string
  SchemaComponents :: FSchemaComponents
  SubobjectData :: "(nat \<times> FActorSpecificSubobjectSchemaData) list"

record FSubobjectSchemaData =
  SubobjectGeneratedSchemaName :: string
  DynamicSubobjectComponents :: "FSchemaComponents list"

text \<open>
  A net cull distance is a \<^verbatim>\<open>float\<close> key; the generator only carries it and prints it,
  so it is kept as its 32-bit pattern.
\<close>

type_synonym float = "32 word"

record USchemaDatabase =
  DbNextAvailableComponentId :: Worker_ComponentId
  DbActorClassPathToSchema :: "(string \<times> FActorSchemaData) list"
  DbSubobjectClassPathToSchema :: "(string \<times> FSubobjectSchemaData) list"
  DbLevelPathToComponentId :: "(string \<times> Worker_ComponentId) list"
  DbNetCullDistanceToComponentId :: "(float \<times> Worker_ComponentId) list"
  ComponentIdToClassPath :: "(Worker_ComponentId \<times> string) list"
  DataComponentIds :: "Worker_ComponentId list"
  OwnerOnlyComponentIds :: "Worker_ComponentId list"
  HandoverComponentIds :: "Worker_ComponentId list"
  NetCullDistanceComponentIds :: "Worker_ComponentId list"
  LevelComponentIds :: "Worker_ComponentId list"
  SchemaDescriptorHash :: "32 word"

text \<open>
  The file-scope variables of the generator. \<^verbatim>\<open>SchemaComponentTypeToComponents\<close> has its
  three keys after \<^verbatim>\<open>ResetSchemaGeneratorState\<close> and after a load, which every caller runs
  first; it is kept as one identifier set per component type.
\<close>

record GeneratorState =
  SchemaGeneratedClasses :: "string list"
  ActorClassPathToSchema :: "(string \<times> FActorSchemaData) list"
  SubobjectClassPathToSchema :: "(string \<times> FSubobjectSchemaData) list"
  NextAvailableComponentId :: Worker_ComponentId
  SchemaComponentTypeToComponents :: "ESchemaComponentType \<Rightarrow> Worker_ComponentId list"
  LevelPathToComponentId :: "(string \<times> Worker_ComponentId) list"
  ClassPathToSchemaName :: "(string \<times> string) list"
  SchemaNameToClassPath :: "(string \<times> string) list"
  PotentialSchemaNameCollisions :: "(string \<times> string list) list"
  NetCullDistanceToComponentId :: "(float \<times> Worker_ComponentId) list"

text \<open>
  Functions and constants the generator calls and whose definitions are in other files
  (\<^verbatim>\<open>Utils/DataTypeUtilities\<close>, \<^verbatim>\<open>SchemaGenerator\<close>, \<^verbatim>\<open>SpatialConstants\<close>,
  \<^verbatim>\<open>Hash/CityHash\<close>, \<^verbatim>\<open>Utils/CodeWriter\<close>): they are parameters of the model.
  \<^verbatim>\<open>UnrealNameToSchemaName\<close> takes its optional second argument explicitly.
  \<^verbatim>\<open>SchemaComponentName\<close> and \<^verbatim>\<open>SchemaFieldLines\<close> give the name and the field lines of
  the component a class gets for one component type; \<^verbatim>\<open>FormatFloat\<close> and
  \<^verbatim>\<open>FloatToUInt64\<close> print a distance and convert it as \<^verbatim>\<open>static_cast<uint64>\<close> does.
\<close>

record Externals =
  UnrealNameToSchemaName :: "string \<Rightarrow> bool \<Rightarrow> string"
  UnrealNameToSchemaComponentName :: "string \<Rightarrow> string"
  SchemaFieldName :: "FUnrealProperty \<Rightarrow> string"
  SchemaComponentName :: "string \<Rightarrow> ESchemaComponentType \<Rightarrow> string"
  SchemaFieldLines :: "FUnrealType \<Rightarrow> ESchemaComponentType \<Rightarrow> string list"
  STARTING_GENERATED_COMPONENT_ID :: Worker_ComponentId
  CityHash32 :: "8 word list \<Rightarrow> 32 word"
  FormatFloat :: "float \<Rightarrow> string"
  FloatToUInt64 :: "float \<Rightarrow> nat"
  GetAssetName :: "string \<Rightarrow> string"

section \<open>Identifier-name validation\<close>

text \<open>The error and display lines of \<^verbatim>\<open>UE_LOG\<close> that validation writes, with their arguments.\<close>

datatype LogMessage =
    NameIsEmpty string string
  | NameHasLeadingDigits string string string
  | ReplicatedPropertyNameCollision string string string
  | HandoverDataNameCollision string string string
  | SubobjectNameCollision string string string
  | ClassNameCollision string "string list"

definition AddPotentialNameCollision :: "string \<Rightarrow> string \<Rightarrow> string \<Rightarrow> GeneratorState \<Rightarrow> GeneratorState" where
  "AddPotentialNameCollision DesiredSchemaName ClassPath GeneratedSchemaName s =
     (let Existing = (case map_of (PotentialSchemaNameCollisions s) DesiredSchemaName of
                        None \<Rightarrow> [] | Some xs \<Rightarrow> xs)
      in s\<lparr>PotentialSchemaNameCollisions :=
              TMapAdd DesiredSchemaName
                (TSetAdd (ClassPath @ ''('' @ GeneratedSchemaName @ '')'') Existing)
                (PotentialSchemaNameCollisions s)\<rparr>)"

definition CheckSchemaNameValidity :: "string \<Rightarrow> string \<Rightarrow> string \<Rightarrow> bool \<times> LogMessage list" where
  "CheckSchemaNameValidity Name Identifier Category =
     (case Name of
        [] \<Rightarrow> (False, [NameIsEmpty Category Identifier])
      | c # _ \<Rightarrow>
          if IsDigit c then (False, [NameHasLeadingDigits Category Name Identifier])
          else (True, []))"

text \<open>
  The three loops of \<^verbatim>\<open>CheckIdentifierNameValidity\<close> have one shape: for every entry, the
  schema name is checked with \<^verbatim>\<open>CheckSchemaNameValidity\<close>, then looked up in the local
  map of the names seen so far; a name already there is logged as a collision and clears
  \<^verbatim>\<open>bOutSuccess\<close>, a new name is added with its entry. An entry is given as its schema name
  and its path name; the local map holds the path name of the first entry of each name.
\<close>

fun CheckNames ::
  "string \<Rightarrow> (string \<Rightarrow> string \<Rightarrow> string \<Rightarrow> LogMessage) \<Rightarrow> (string \<times> string) list \<Rightarrow>
   (string \<times> string) list \<Rightarrow> bool \<times> LogMessage list \<Rightarrow> bool \<times> LogMessage list" where
  "CheckNames Category Collision [] Seen (bOutSuccess, lg) = (bOutSuccess, lg)"
| "CheckNames Category Collision ((NextName, PathName) # Rest) Seen (bOutSuccess, lg) =
     (let (Valid, Msgs) = CheckSchemaNameValidity NextName PathName Category;
          bOutSuccess1 = (bOutSuccess \<and> Valid);
          lg1 = lg @ Msgs
      in case map_of Seen NextName of
           Some Existing \<Rightarrow>
             CheckNames Category Collision Rest Seen
               (False, lg1 @ [Collision NextName Existing PathName])
         | None \<Rightarrow>
             CheckNames Category Collision Rest (TMapAdd NextName PathName Seen) (bOutSuccess1, lg1))"

definition CheckIdentifierNameValidity ::
  "Externals \<Rightarrow> FUnrealType \<Rightarrow> bool \<times> LogMessage list \<Rightarrow> bool \<times> LogMessage list" where
  "CheckIdentifierNameValidity ext TypeInfo acc =
     (let acc1 = fold (\<lambda>RepProps a.
                    CheckNames ''Replicated property'' ReplicatedPropertyNameCollision
                      (map (\<lambda>p. (SchemaFieldName ext p, PropertyPathName p)) RepProps) [] a)
                  (GetFlatRepData TypeInfo) acc;
          acc2 = CheckNames ''Handover property'' HandoverDataNameCollision
                   (map (\<lambda>p. (SchemaFieldName ext p, PropertyPathName p)) (GetFlatHandoverData TypeInfo))
                   [] acc1
      in CheckNames ''Subobject'' SubobjectNameCollision
           (map (\<lambda>so. (UnrealNameToSchemaComponentName ext (SubobjectName so), ObjectPathName so))
              (GetAllSubobjects TypeInfo))
           [] acc2)"

text \<open>
  The \<^verbatim>\<open>while\<close> loop of \<^verbatim>\<open>ValidateIdentifierNames\<close>: as long as the candidate name is a
  key of \<^verbatim>\<open>SchemaNameToClassPath\<close>, the next candidate is the sanitised class name followed
  by the incremented suffix. The table is finite and the decimal numerals are pairwise
  different, so the loop ends.
\<close>

definition SuffixedNamesInUse :: "(string \<times> string) list \<Rightarrow> string \<Rightarrow> nat \<Rightarrow> string set" where
  "SuffixedNamesInUse tbl base s = {k \<in> fst ` set tbl. \<exists>j > s. k = base @ FromInt j}"

lemma Digits_inj: "a < 10 \<Longrightarrow> b < 10 \<Longrightarrow> Digits ! a = Digits ! b \<Longrightarrow> a = b"
proof -
  have d: "distinct Digits" and l: "length Digits = 10"
    by (simp_all add: Digits_def)
  show "a < 10 \<Longrightarrow> b < 10 \<Longrightarrow> Digits ! a = Digits ! b \<Longrightarrow> a = b"
    using d l by (simp add: nth_eq_iff_index_eq)
qed

lemma FromInt_nonempty: "FromInt n \<noteq> []"
  by (subst FromInt.simps) simp

lemma FromInt_inj: "FromInt n = FromInt m \<Longrightarrow> n = m"
proof (induction n arbitrary: m rule: FromInt.induct)
  case (1 n)
  show ?case
  proof (cases "n < 10")
    case True
    then have n: "FromInt n = [Digits ! n]"
      by (subst FromInt.simps) simp
    show ?thesis
    proof (cases "m < 10")
      case True
      then have "FromInt m = [Digits ! m]"
        by (subst FromInt.simps) simp
      with n "1.prems" have "Digits ! n = Digits ! m" by simp
      with \<open>n < 10\<close> True show ?thesis by (rule Digits_inj)
    next
      case False
      then have "FromInt m = FromInt (m div 10) @ [Digits ! (m mod 10)]"
        by (subst FromInt.simps) simp
      with n "1.prems" have "FromInt (m div 10) = []" by simp
      with FromInt_nonempty show ?thesis by blast
    qed
  next
    case False
    then have n: "FromInt n = FromInt (n div 10) @ [Digits ! (n mod 10)]"
      by (subst FromInt.simps) simp
    show ?thesis
    proof (cases "m < 10")
      case True
      then have "FromInt m = [Digits ! m]"
        by (subst FromInt.simps) simp
      with n "1.prems" have "FromInt (n div 10) = []" by simp
      with FromInt_nonempty show ?thesis by blast
    next
      case m: False
      then have "FromInt m = FromInt (m div 10) @ [Digits ! (m mod 10)]"
        by (subst FromInt.simps) simp
      with n "1.prems" have e: "FromInt (n div 10) = FromInt (m div 10)"
        and d: "Digits ! (n mod 10) = Digits ! (m mod 10)"
        by simp_all
      from "1.IH" [OF False e] have "n div 10 = m div 10" .
      moreover from d have "n mod 10 = m mod 10"
        by (intro Digits_inj) simp_all
      ultimately show ?thesis
        by (metis div_mult_mod_eq)
    qed
  qed
qed

lemma finite_SuffixedNamesInUse: "finite (SuffixedNamesInUse tbl base s)"
  by (simp add: SuffixedNamesInUse_def)

lemma ex_greater_Suc: "(\<exists>j > s. P j) \<longleftrightarrow> P (Suc s) \<or> (\<exists>j > Suc s. P (j :: nat))"
proof
  assume "\<exists>j > s. P j"
  then obtain j where j: "s < j" "P j" by blast
  show "P (Suc s) \<or> (\<exists>j > Suc s. P j)"
  proof (cases "j = Suc s")
    case True
    with j show ?thesis by simp
  next
    case False
    with j have "Suc s < j" by simp
    with j show ?thesis by blast
  qed
next
  assume "P (Suc s) \<or> (\<exists>j > Suc s. P j)"
  then show "\<exists>j > s. P j"
    using Suc_lessD by blast
qed

lemma Collect_greater_Suc:
  "{k \<in> K. \<exists>j > s. k = f j} =
     (if f (Suc s) \<in> K then {f (Suc s)} else {}) \<union> {k \<in> K. \<exists>j > Suc s. k = f (j :: nat)}"
  by (subst ex_greater_Suc) auto

lemma SuffixedNamesInUse_Suc:
  "SuffixedNamesInUse tbl base s =
     (if base @ FromInt (Suc s) \<in> fst ` set tbl then {base @ FromInt (Suc s)} else {}) \<union>
     SuffixedNamesInUse tbl base (Suc s)"
  unfolding SuffixedNamesInUse_def
  by (rule Collect_greater_Suc)

lemma SuffixedNamesInUse_fresh: "base @ FromInt (Suc s) \<notin> SuffixedNamesInUse tbl base (Suc s)"
  unfolding SuffixedNamesInUse_def
  by (auto dest: FromInt_inj)

lemma card_SuffixedNamesInUse:
  "card (SuffixedNamesInUse tbl base s) =
     (if base @ FromInt (Suc s) \<in> fst ` set tbl then 1 else 0) +
     card (SuffixedNamesInUse tbl base (Suc s))"
proof (cases "base @ FromInt (Suc s) \<in> fst ` set tbl")
  case True
  then have "SuffixedNamesInUse tbl base s =
      insert (base @ FromInt (Suc s)) (SuffixedNamesInUse tbl base (Suc s))"
    by (subst SuffixedNamesInUse_Suc) simp
  then show ?thesis
    using True finite_SuffixedNamesInUse [of tbl base "Suc s"] SuffixedNamesInUse_fresh [of base s tbl]
    by simp
next
  case False
  then have "SuffixedNamesInUse tbl base s = SuffixedNamesInUse tbl base (Suc s)"
    by (subst SuffixedNamesInUse_Suc) simp
  with False show ?thesis by simp
qed

function FindFreeSchemaName ::
  "(string \<times> string) list \<Rightarrow> string \<Rightarrow> string \<times> nat \<Rightarrow> string \<times> nat" where
  "FindFreeSchemaName tbl base (SchemaName, Suffix) =
     (if TMapContains tbl SchemaName
      then FindFreeSchemaName tbl base (base @ FromInt (Suc Suffix), Suc Suffix)
      else (SchemaName, Suffix))"
  by pat_completeness auto
termination
proof (relation "measure (\<lambda>(tbl, base, nm, s).
          card (SuffixedNamesInUse tbl base s) + (if TMapContains tbl nm then 1 else 0))")
  show "wf (measure (\<lambda>(tbl, base, nm, s).
          card (SuffixedNamesInUse tbl base s) + (if TMapContains tbl nm then 1 else 0)))"
    by simp
next
  fix tbl :: "(string \<times> string) list" and base SchemaName :: string and Suffix :: nat
  assume "TMapContains tbl SchemaName"
  moreover have "TMapContains tbl (base @ FromInt (Suc Suffix)) \<longleftrightarrow>
      base @ FromInt (Suc Suffix) \<in> fst ` set tbl"
    by (simp add: TMapContains_def map_of_eq_None_iff)
  ultimately show "((tbl, base, base @ FromInt (Suc Suffix), Suc Suffix), (tbl, base, SchemaName, Suffix))
      \<in> measure (\<lambda>(tbl, base, nm, s).
          card (SuffixedNamesInUse tbl base s) + (if TMapContains tbl nm then 1 else 0))"
    using card_SuffixedNamesInUse [of tbl base Suffix] by simp
qed

declare FindFreeSchemaName.simps [simp del]

text \<open>
  The body of the first loop of \<^verbatim>\<open>ValidateIdentifierNames\<close> for one class: the validity
  check of the sanitised class name, then, unless the class path already has a schema
  name, the search for a free name and the three table updates.
\<close>

definition ValidateClassName ::
  "Externals \<Rightarrow> FUnrealType \<Rightarrow> GeneratorState \<times> bool \<times> LogMessage list \<Rightarrow>
   GeneratorState \<times> bool \<times> LogMessage list" where
  "ValidateClassName ext TypeInfo = (\<lambda>(s, bSuccess, lg).
     let ClassPath = ClassPathName TypeInfo;
         SchemaName = UnrealNameToSchemaName ext (ClassName TypeInfo) True;
         (Valid, Msgs) = CheckSchemaNameValidity SchemaName ClassPath ''Class'';
         bSuccess1 = (bSuccess \<and> Valid);
         lg1 = lg @ Msgs;
         DesiredSchemaName = SchemaName
     in if TMapContains (ClassPathToSchemaName s) ClassPath then (s, bSuccess1, lg1)
        else
          let (FreeName, Suffix) =
                FindFreeSchemaName (SchemaNameToClassPath s)
                  (UnrealNameToSchemaName ext (ClassName TypeInfo) False) (SchemaName, 0);
              s1 = s\<lparr>ClassPathToSchemaName := TMapAdd ClassPath FreeName (ClassPathToSchemaName s),
                     SchemaNameToClassPath := TMapAdd FreeName ClassPath (SchemaNameToClassPath s)\<rparr>;
              s2 = (if DesiredSchemaName \<noteq> FreeName
                    then AddPotentialNameCollision DesiredSchemaName ClassPath FreeName s1 else s1)
          in (AddPotentialNameCollision FreeName ClassPath FreeName s2, bSuccess1, lg1))"

definition ValidateIdentifierNames ::
  "Externals \<Rightarrow> FUnrealType list \<Rightarrow> GeneratorState \<Rightarrow> bool \<times> GeneratorState \<times> LogMessage list" where
  "ValidateIdentifierNames ext TypeInfos s =
     (let (s1, bSuccess1, lg1) = fold (ValidateClassName ext) TypeInfos (s, True, []);
          lg2 = lg1 @ map (\<lambda>(Name, Classes). ClassNameCollision Name Classes)
                        (filter (\<lambda>(Name, Classes). length Classes > 1)
                           (PotentialSchemaNameCollisions s1));
          (bSuccess2, lg3) = fold (CheckIdentifierNameValidity ext) TypeInfos (bSuccess1, lg2)
      in (bSuccess2, s1, lg3))"


section \<open>Files, the code writer and the platform\<close>

text \<open>
  \<^verbatim>\<open>FCodeWriter\<close> collects lines; a line is kept with the indentation depth it was printed
  at. \<^verbatim>\<open>WriteToFile\<close> returns nothing: on a path that cannot be written the file system
  stays as it was and the generator does not learn of it.
\<close>

record FCodeWriter =
  OutputSource :: "(nat \<times> string) list"
  Scope :: nat

definition NewCodeWriter :: FCodeWriter where
  "NewCodeWriter = \<lparr>OutputSource = [], Scope = 0\<rparr>"

definition Print :: "string \<Rightarrow> FCodeWriter \<Rightarrow> FCodeWriter" where
  "Print Line w = w\<lparr>OutputSource := OutputSource w @ [(Scope w, Line)]\<rparr>"

definition PrintNewLine :: "FCodeWriter \<Rightarrow> FCodeWriter" where
  "PrintNewLine w = w\<lparr>OutputSource := OutputSource w @ [(0, [])]\<rparr>"

definition Indent :: "FCodeWriter \<Rightarrow> FCodeWriter" where
  "Indent w = w\<lparr>Scope := Suc (Scope w)\<rparr>"

definition Outdent :: "FCodeWriter \<Rightarrow> FCodeWriter" where
  "Outdent w = w\<lparr>Scope := Scope w - 1\<rparr>"

record FileSystem =
  Files :: "(string \<times> (nat \<times> string) list) list"
  WriteProtected :: "string list"

definition WriteToFile :: "string \<Rightarrow> FCodeWriter \<Rightarrow> FileSystem \<Rightarrow> FileSystem" where
  "WriteToFile Filename w fs =
     (if Filename \<in> set (WriteProtected fs) then fs
      else fs\<lparr>Files := TMapAdd Filename (OutputSource w) (Files fs)\<rparr>)"

record FFileStatData =
  bIsValid :: bool
  bIsReadOnly :: bool

record FileHandle =
  FileBytes :: "8 word list"
  ReadSucceeds :: bool

text \<open>
  What the platform answers during one run: the stat data of the schema database package
  and what loading it gives; the configured output folder; whether the output path
  collapses; the level names and paths of the asset registry; the RPC endpoint schema
  writer (\<^verbatim>\<open>GenerateRPCEndpointsSchema\<close>, defined elsewhere); the directory operations and
  the exit code of the schema compiler; the handle \<^verbatim>\<open>OpenRead\<close> gives for
  \<^verbatim>\<open>schema.descriptor\<close>; and whether \<^verbatim>\<open>UPackage::SavePackage\<close> succeeds.
\<close>

record Platform =
  StatData :: FFileStatData
  TryLoad :: "USchemaDatabase option"
  GetGeneratedSchemaOutputFolder :: string
  CollapseRelativeDirectories :: "string \<Rightarrow> string option"
  GetLevelNamesToPathsMap :: "(string \<times> string) list"
  GenerateRPCEndpointsSchema :: "string \<Rightarrow> FileSystem \<Rightarrow> FileSystem"
  CompiledSchemaDirExists :: bool
  DeleteCompiledSchemaDir :: bool
  CreateCompiledSchemaDir :: bool
  ASTOutputRequested :: bool
  CreateCompiledSchemaASTDir :: bool
  ExecSchemaCompiler :: "FileSystem \<Rightarrow> int"
  OpenReadDescriptor :: "FileHandle option"
  SavePackage :: bool

section \<open>Resetting and loading the generator state\<close>

definition ResetSchemaGeneratorState :: "Externals \<Rightarrow> GeneratorState \<Rightarrow> GeneratorState" where
  "ResetSchemaGeneratorState ext s =
     s\<lparr>ActorClassPathToSchema := [],
       SubobjectClassPathToSchema := [],
       SchemaComponentTypeToComponents := (\<lambda>Type. []),
       LevelPathToComponentId := [],
       NextAvailableComponentId := STARTING_GENERATED_COMPONENT_ID ext,
       SchemaGeneratedClasses := [],
       NetCullDistanceToComponentId := []\<rparr>"

definition IsAssetReadOnly :: "Platform \<Rightarrow> bool" where
  "IsAssetReadOnly plat = (bIsValid (StatData plat) \<and> bIsReadOnly (StatData plat))"

definition LoadGeneratorStateFromSchemaDatabase ::
  "Externals \<Rightarrow> Platform \<Rightarrow> GeneratorState \<Rightarrow> bool \<times> GeneratorState" where
  "LoadGeneratorStateFromSchemaDatabase ext plat s =
     (if IsAssetReadOnly plat then (False, s)
      else if bIsValid (StatData plat) then
        (case TryLoad plat of
           None \<Rightarrow> (False, s)
         | Some SchemaDatabase \<Rightarrow>
             (let s1 = s\<lparr>ActorClassPathToSchema := DbActorClassPathToSchema SchemaDatabase,
                         SubobjectClassPathToSchema := DbSubobjectClassPathToSchema SchemaDatabase,
                         SchemaComponentTypeToComponents :=
                           (\<lambda>Type. case Type of
                               SCHEMA_Data \<Rightarrow> remdups (DataComponentIds SchemaDatabase)
                             | SCHEMA_OwnerOnly \<Rightarrow> remdups (OwnerOnlyComponentIds SchemaDatabase)
                             | SCHEMA_Handover \<Rightarrow> remdups (HandoverComponentIds SchemaDatabase)),
                         LevelPathToComponentId := DbLevelPathToComponentId SchemaDatabase,
                         NextAvailableComponentId := DbNextAvailableComponentId SchemaDatabase,
                         NetCullDistanceToComponentId := DbNetCullDistanceToComponentId SchemaDatabase\<rparr>
              in if length (ActorClassPathToSchema s1) > 0 \<and>
                    NextAvailableComponentId s1 = STARTING_GENERATED_COMPONENT_ID ext
                 then (False, s1)
                 else (True, s1)))
      else (False, s))"

text \<open>
  The commandlet's use of the load (\<^verbatim>\<open>UCookAndGenerateSchemaCommandlet::Main\<close>): a failed
  load is answered by \<^verbatim>\<open>ResetSchemaGeneratorStateAndCleanupFolders\<close>, whose effect on the
  generator state is \<^verbatim>\<open>ResetSchemaGeneratorState\<close>.
\<close>

definition LoadOrResetGeneratorState :: "Externals \<Rightarrow> Platform \<Rightarrow> GeneratorState \<Rightarrow> GeneratorState" where
  "LoadOrResetGeneratorState ext plat s =
     (case LoadGeneratorStateFromSchemaDatabase ext plat s of
        (True, s1) \<Rightarrow> s1
      | (False, s1) \<Rightarrow> ResetSchemaGeneratorState ext s1)"

section \<open>Replaying the committed schema names\<close>

definition ResolveClassPathToSchemaName ::
  "Externals \<Rightarrow> string \<Rightarrow> string \<Rightarrow> GeneratorState \<Rightarrow> GeneratorState" where
  "ResolveClassPathToSchemaName ext ClassPath SchemaName s =
     (if SchemaName = [] then s
      else
        let s1 = s\<lparr>ClassPathToSchemaName := TMapAdd ClassPath SchemaName (ClassPathToSchemaName s),
                   SchemaNameToClassPath := TMapAdd SchemaName ClassPath (SchemaNameToClassPath s)\<rparr>;
            DesiredSchemaName = UnrealNameToSchemaName ext (GetAssetName ext ClassPath) False;
            s2 = (if DesiredSchemaName \<noteq> SchemaName
                  then AddPotentialNameCollision DesiredSchemaName ClassPath SchemaName s1 else s1)
        in AddPotentialNameCollision SchemaName ClassPath SchemaName s2)"

definition ResetUsedNames :: "Externals \<Rightarrow> GeneratorState \<Rightarrow> GeneratorState" where
  "ResetUsedNames ext s =
     (let s0 = s\<lparr>ClassPathToSchemaName := [], SchemaNameToClassPath := [],
                 PotentialSchemaNameCollisions := []\<rparr>;
          s1 = fold (\<lambda>(Key, Entry). ResolveClassPathToSchemaName ext Key (ActorGeneratedSchemaName Entry))
                 (ActorClassPathToSchema s0) s0
      in fold (\<lambda>(Key, Entry). ResolveClassPathToSchemaName ext Key (SubobjectGeneratedSchemaName Entry))
           (SubobjectClassPathToSchema s1) s1)"

section \<open>Assigning component identifiers to classes\<close>

text \<open>
  Modelled from the spec: \<^verbatim>\<open>GenerateActorSchema\<close> and \<^verbatim>\<open>GenerateSubobjectSchema\<close> are
  defined in \<^verbatim>\<open>SchemaGenerator.cpp\<close>, which is not among the sources. The specification
  (4.4, steps 2 and 3; 3, data model and invariants; 6, output) gives the policy: a class
  that is in the database keeps its stored component identifiers, otherwise new ones are
  minted per category by the identifier generator; 0 is the "unassigned" sentinel and every
  category has a non-zero identifier once generation succeeds, so a stored 0 is minted as
  well; the categories are taken in the order Data, OwnerOnly, Handover; actor classes are
  recorded in the actor table, other classes in the subobject table, keyed by class path,
  under the schema name resolved for the class path; the assigned identifiers join the
  identifier set of their category; each class gets a schema file of component blocks
  \<^verbatim>\<open>component <Name> { id = <ComponentId>; <fields> }\<close>. A subobject class keeps its
  per-category identifier set as the first entry of \<^verbatim>\<open>DynamicSubobjectComponents\<close>. The
  specification gives no rule for the entries nested in a record (\<^verbatim>\<open>SubobjectData\<close>, further
  dynamic sets): they are carried over from the stored record.
\<close>

definition ReuseOrMint ::
  "Worker_ComponentId \<Rightarrow> FComponentIdGenerator \<Rightarrow> error + (Worker_ComponentId \<times> FComponentIdGenerator)" where
  "ReuseOrMint Stored g = (if Stored \<noteq> 0 then Inr (Stored, g) else Next g)"

definition AssignSchemaComponents ::
  "FSchemaComponents \<Rightarrow> FComponentIdGenerator \<Rightarrow> error + (FSchemaComponents \<times> FComponentIdGenerator)" where
  "AssignSchemaComponents Stored g =
     (case ReuseOrMint (DataComponent Stored) g of
        Inl e \<Rightarrow> Inl e
      | Inr (d, g1) \<Rightarrow>
          (case ReuseOrMint (OwnerOnlyComponent Stored) g1 of
             Inl e \<Rightarrow> Inl e
           | Inr (oo, g2) \<Rightarrow>
               (case ReuseOrMint (HandoverComponent Stored) g2 of
                  Inl e \<Rightarrow> Inl e
                | Inr (h, g3) \<Rightarrow>
                    Inr (\<lparr>DataComponent = d, OwnerOnlyComponent = oo, HandoverComponent = h\<rparr>, g3))))"

definition NoSchemaComponents :: FSchemaComponents where
  "NoSchemaComponents = \<lparr>DataComponent = 0, OwnerOnlyComponent = 0, HandoverComponent = 0\<rparr>"

definition WriteComponent :: "string \<Rightarrow> Worker_ComponentId \<Rightarrow> string list \<Rightarrow> FCodeWriter \<Rightarrow> FCodeWriter" where
  "WriteComponent Name ComponentId Fields w =
     Print ''}'' (Outdent
       (fold Print Fields
          (Print (''id = '' @ FromInt (unat ComponentId) @ '';'')
             (Indent (Print (''component '' @ Name @ '' {'') (PrintNewLine w))))))"

definition WriteClassSchema ::
  "Externals \<Rightarrow> FUnrealType \<Rightarrow> string \<Rightarrow> FSchemaComponents \<Rightarrow> FCodeWriter" where
  "WriteClassSchema ext TypeInfo SchemaName Components =
     fold (\<lambda>Type. WriteComponent (SchemaComponentName ext SchemaName Type)
                    (SchemaComponentAt Components Type) (SchemaFieldLines ext TypeInfo Type))
       AllSchemaComponentTypes
       (Print (''// '' @ ClassPathName TypeInfo) NewCodeWriter)"

definition AddComponentsToTypeSets ::
  "FSchemaComponents \<Rightarrow> (ESchemaComponentType \<Rightarrow> Worker_ComponentId list) \<Rightarrow>
   (ESchemaComponentType \<Rightarrow> Worker_ComponentId list)" where
  "AddComponentsToTypeSets Components Sets =
     (\<lambda>Type. TSetAdd (SchemaComponentAt Components Type) (Sets Type))"

definition SchemaNameOf :: "GeneratorState \<Rightarrow> string \<Rightarrow> string" where
  "SchemaNameOf s ClassPath =
     (case map_of (ClassPathToSchemaName s) ClassPath of None \<Rightarrow> [] | Some Name \<Rightarrow> Name)"

definition GenerateActorSchema ::
  "Externals \<Rightarrow> FComponentIdGenerator \<Rightarrow> FUnrealType \<Rightarrow> string \<Rightarrow> GeneratorState \<times> FileSystem \<Rightarrow>
   error + (FComponentIdGenerator \<times> GeneratorState \<times> FileSystem)" where
  "GenerateActorSchema ext IdGenerator TypeInfo SchemaPath = (\<lambda>(s, fs).
     let ClassPath = ClassPathName TypeInfo;
         SchemaData = map_of (ActorClassPathToSchema s) ClassPath;
         Stored = (case SchemaData of None \<Rightarrow> NoSchemaComponents | Some d \<Rightarrow> SchemaComponents d)
     in case AssignSchemaComponents Stored IdGenerator of
          Inl e \<Rightarrow> Inl e
        | Inr (Components, g) \<Rightarrow>
            let Name = SchemaNameOf s ClassPath;
                ActorSchemaData =
                  \<lparr>ActorGeneratedSchemaName = Name, SchemaComponents = Components,
                   SubobjectData = (case SchemaData of None \<Rightarrow> [] | Some d \<Rightarrow> SubobjectData d)\<rparr>
            in Inr (g,
                 s\<lparr>ActorClassPathToSchema := TMapAdd ClassPath ActorSchemaData (ActorClassPathToSchema s),
                   SchemaComponentTypeToComponents :=
                     AddComponentsToTypeSets Components (SchemaComponentTypeToComponents s)\<rparr>,
                 WriteToFile (SchemaPath @ Name @ ''.schema'')
                   (WriteClassSchema ext TypeInfo Name Components) fs))"

definition GenerateSubobjectSchema ::
  "Externals \<Rightarrow> FComponentIdGenerator \<Rightarrow> FUnrealType \<Rightarrow> string \<Rightarrow> GeneratorState \<times> FileSystem \<Rightarrow>
   error + (FComponentIdGenerator \<times> GeneratorState \<times> FileSystem)" where
  "GenerateSubobjectSchema ext IdGenerator TypeInfo SchemaPath = (\<lambda>(s, fs).
     let ClassPath = ClassPathName TypeInfo;
         SchemaData = map_of (SubobjectClassPathToSchema s) ClassPath;
         StoredSets = (case SchemaData of None \<Rightarrow> [] | Some d \<Rightarrow> DynamicSubobjectComponents d);
         Stored = (case StoredSets of [] \<Rightarrow> NoSchemaComponents | c # _ \<Rightarrow> c)
     in case AssignSchemaComponents Stored IdGenerator of
          Inl e \<Rightarrow> Inl e
        | Inr (Components, g) \<Rightarrow>
            let Name = SchemaNameOf s ClassPath;
                SubobjectSchemaData =
                  \<lparr>SubobjectGeneratedSchemaName = Name,
                   DynamicSubobjectComponents = Components # tl StoredSets\<rparr>
            in Inr (g,
                 s\<lparr>SubobjectClassPathToSchema :=
                     TMapAdd ClassPath SubobjectSchemaData (SubobjectClassPathToSchema s),
                   SchemaComponentTypeToComponents :=
                     AddComponentsToTypeSets Components (SchemaComponentTypeToComponents s)\<rparr>,
                 WriteToFile (SchemaPath @ Name @ ''.schema'')
                   (WriteClassSchema ext TypeInfo Name Components) fs))"

section \<open>Generating the schema of a class set\<close>

definition GenerateCompleteSchemaFromClass ::
  "Externals \<Rightarrow> string \<Rightarrow> FComponentIdGenerator \<Rightarrow> FUnrealType \<Rightarrow> GeneratorState \<times> FileSystem \<Rightarrow>
   error + (FComponentIdGenerator \<times> GeneratorState \<times> FileSystem)" where
  "GenerateCompleteSchemaFromClass ext SchemaPath IdGenerator TypeInfo sfs =
     (if IsChildOfAActor TypeInfo
      then GenerateActorSchema ext IdGenerator TypeInfo SchemaPath sfs
      else GenerateSubobjectSchema ext IdGenerator TypeInfo (SchemaPath @ ''Subobjects/'') sfs)"

fun GenerateSchemaFromClasses ::
  "Externals \<Rightarrow> FUnrealType list \<Rightarrow> string \<Rightarrow> FComponentIdGenerator \<Rightarrow> GeneratorState \<times> FileSystem \<Rightarrow>
   error + (FComponentIdGenerator \<times> GeneratorState \<times> FileSystem)" where
  "GenerateSchemaFromClasses ext [] CombinedSchemaPath IdGenerator sfs = Inr (IdGenerator, sfs)"
| "GenerateSchemaFromClasses ext (TypeInfo # Rest) CombinedSchemaPath IdGenerator sfs =
     (case GenerateCompleteSchemaFromClass ext CombinedSchemaPath IdGenerator TypeInfo sfs of
        Inl e \<Rightarrow> Inl e
      | Inr (g, sfs1) \<Rightarrow> GenerateSchemaFromClasses ext Rest CombinedSchemaPath g sfs1)"

text \<open>
  The loop of \<^verbatim>\<open>SpatialGDKGenerateSchemaForClasses\<close> that builds the type information: a
  class already generated is skipped; otherwise it is recorded, its type information is
  added, and so is that of every nested class that is supported and not yet generated.
\<close>

definition CollectNestedClass ::
  "NestedClass \<Rightarrow> FUnrealType list \<times> string list \<Rightarrow> FUnrealType list \<times> string list" where
  "CollectNestedClass Nested = (\<lambda>(TypeInfos, Generated).
     if ClassPathName (NestedTypeInfo Nested) \<notin> set Generated \<and> NestedIsSupported Nested
     then (TypeInfos @ [NestedTypeInfo Nested], Generated @ [ClassPathName (NestedTypeInfo Nested)])
     else (TypeInfos, Generated))"

definition CollectClass ::
  "UClass \<Rightarrow> FUnrealType list \<times> string list \<Rightarrow> FUnrealType list \<times> string list" where
  "CollectClass Class = (\<lambda>(TypeInfos, Generated).
     if GetPathName Class \<in> set Generated then (TypeInfos, Generated)
     else fold CollectNestedClass (VisitAllObjects Class)
            (TypeInfos @ [CreateUnrealTypeInfo Class], Generated @ [GetPathName Class]))"

text \<open>
  \<^verbatim>\<open>Classes.Sort\<close> orders the set by path name; path names are compared as character
  lists.
\<close>

definition SpatialGDKGenerateSchemaForClasses ::
  "Externals \<Rightarrow> Platform \<Rightarrow> UClass list \<Rightarrow> string \<Rightarrow> GeneratorState \<times> FileSystem \<Rightarrow>
   error + (bool \<times> GeneratorState \<times> FileSystem \<times> LogMessage list)" where
  "SpatialGDKGenerateSchemaForClasses ext plat Classes SchemaOutputPath = (\<lambda>(s, fs).
     let s0 = ResetUsedNames ext s;
         Sorted = sort_key GetPathName Classes;
         (TypeInfos, Generated) = fold CollectClass Sorted ([], SchemaGeneratedClasses s0);
         s1 = s0\<lparr>SchemaGeneratedClasses := Generated\<rparr>;
         (bValid, s2, lg) = ValidateIdentifierNames ext TypeInfos s1
     in if \<not> bValid then Inr (False, s2, fs, lg)
        else
          case CollapseRelativeDirectories plat
                 (if SchemaOutputPath = [] then GetGeneratedSchemaOutputFolder plat else SchemaOutputPath) of
            None \<Rightarrow> Inr (False, s2, fs, lg)
          | Some Path \<Rightarrow>
              (case GenerateSchemaFromClasses ext TypeInfos Path
                      \<lparr>NextId = NextAvailableComponentId s2\<rparr> (s2, fs) of
                 Inl e \<Rightarrow> Inl e
               | Inr (IdGenerator, s3, fs3) \<Rightarrow>
                   Inr (True, s3\<lparr>NextAvailableComponentId := fst (Peek IdGenerator)\<rparr>, fs3, lg)))"


section \<open>Sublevels and net cull distances\<close>

text \<open>A loop whose body can end the run with an error.\<close>

fun ForEach :: "('a \<Rightarrow> 'st \<Rightarrow> error + 'st) \<Rightarrow> 'a list \<Rightarrow> 'st \<Rightarrow> error + 'st" where
  "ForEach body [] st = Inr st"
| "ForEach body (x # xs) st =
     (case body x st of Inl e \<Rightarrow> Inl e | Inr st1 \<Rightarrow> ForEach body xs st1)"

text \<open>
  \<^verbatim>\<open>TMultiMap<FName, FName>\<close> is a list of (level name, level path) pairs. \<^verbatim>\<open>GetKeys\<close>
  gives every key once, \<^verbatim>\<open>MultiFind\<close> the paths stored under a key, \<^verbatim>\<open>Num(Key)\<close> their
  number, \<^verbatim>\<open>FindRef\<close> one of them (the name \<^verbatim>\<open>None\<close> for a key that is absent). The
  order in which the engine enumerates keys and values is taken to be the order of the list.
\<close>

definition GetKeys :: "(string \<times> string) list \<Rightarrow> string list" where
  "GetKeys m = remdups (map fst m)"

definition MultiFind :: "(string \<times> string) list \<Rightarrow> string \<Rightarrow> string list" where
  "MultiFind m Key = map snd (filter (\<lambda>kv. fst kv = Key) m)"

definition MultiMapFindRef :: "(string \<times> string) list \<Rightarrow> string \<Rightarrow> string" where
  "MultiMapFindRef m Key = (case MultiFind m Key of [] \<Rightarrow> ''None'' | p # _ \<Rightarrow> p)"

definition WriteLevelComponent ::
  "Externals \<Rightarrow> FCodeWriter \<Rightarrow> string \<Rightarrow> Worker_ComponentId \<Rightarrow> string \<Rightarrow> FCodeWriter" where
  "WriteLevelComponent ext Writer LevelName ComponentId ClassPath =
     Print ''}'' (Outdent
       (Print (''id = '' @ FromInt (unat ComponentId) @ '';'')
          (Indent
             (Print (''component '' @ UnrealNameToSchemaComponentName ext LevelName @ '' {'')
                (Print (''// '' @ ClassPath) (PrintNewLine Writer))))))"

text \<open>
  The block both branches of the loop of \<^verbatim>\<open>GenerateSchemaForSublevels\<close> run for one level
  path: the identifier stored for the path is looked up, a missing or zero one is replaced
  by the generator's next identifier and stored, and the component is written under the
  given display name.
\<close>

definition GenerateLevelComponent ::
  "Externals \<Rightarrow> string \<Rightarrow> string \<Rightarrow>
   FComponentIdGenerator \<times> (string \<times> Worker_ComponentId) list \<times> FCodeWriter \<Rightarrow>
   error + (FComponentIdGenerator \<times> (string \<times> Worker_ComponentId) list \<times> FCodeWriter)" where
  "GenerateLevelComponent ext LevelName LevelPath = (\<lambda>(IdGenerator, Levels, Writer).
     let ComponentId = FindRef Levels LevelPath
     in if ComponentId = 0
        then (case Next IdGenerator of
                Inl e \<Rightarrow> Inl e
              | Inr (NewId, g) \<Rightarrow>
                  Inr (g, TMapAdd LevelPath NewId Levels,
                       WriteLevelComponent ext Writer LevelName NewId LevelPath))
        else Inr (IdGenerator, Levels, WriteLevelComponent ext Writer LevelName ComponentId LevelPath))"

definition GenerateLevelName ::
  "Externals \<Rightarrow> (string \<times> string) list \<Rightarrow> string \<Rightarrow>
   FComponentIdGenerator \<times> (string \<times> Worker_ComponentId) list \<times> FCodeWriter \<Rightarrow>
   error + (FComponentIdGenerator \<times> (string \<times> Worker_ComponentId) list \<times> FCodeWriter)" where
  "GenerateLevelName ext LevelNamesToPaths LevelName st =
     (let LevelPaths = MultiFind LevelNamesToPaths LevelName
      in if length LevelPaths > 1
         then ForEach (\<lambda>(i, LevelPath).
                  GenerateLevelComponent ext (LevelName @ ''Ind'' @ FromInt i) LevelPath)
                (enumerate 0 LevelPaths) st
         else GenerateLevelComponent ext LevelName (MultiMapFindRef LevelNamesToPaths LevelName) st)"

definition SublevelsHeader :: FCodeWriter where
  "SublevelsHeader =
     Print ''package unreal.sublevels;''
       (Print ''// Note that this file has been generated automatically''
          (Print ''// Copyright (c) Improbable Worlds Ltd, All Rights Reserved'' NewCodeWriter))"

definition GenerateSchemaForSublevels ::
  "Externals \<Rightarrow> string \<Rightarrow> (string \<times> string) list \<Rightarrow> GeneratorState \<times> FileSystem \<Rightarrow>
   error + (GeneratorState \<times> FileSystem)" where
  "GenerateSchemaForSublevels ext SchemaOutputPath LevelNamesToPaths = (\<lambda>(s, fs).
     case ForEach (GenerateLevelName ext LevelNamesToPaths) (GetKeys LevelNamesToPaths)
            (\<lparr>NextId = NextAvailableComponentId s\<rparr>, LevelPathToComponentId s, SublevelsHeader) of
       Inl e \<Rightarrow> Inl e
     | Inr (IdGenerator, Levels, Writer) \<Rightarrow>
         Inr (s\<lparr>LevelPathToComponentId := Levels,
                NextAvailableComponentId := fst (Peek IdGenerator)\<rparr>,
              WriteToFile (SchemaOutputPath @ ''Sublevels/sublevels.schema'') Writer fs))"

definition NCDHeader :: FCodeWriter where
  "NCDHeader =
     Print ''package unreal.ncdcomponents;''
       (Print ''// Note that this file has been generated automatically''
          (Print ''// Copyright (c) Improbable Worlds Ltd, All Rights Reserved'' NewCodeWriter))"

text \<open>
  The loop body of \<^verbatim>\<open>GenerateSchemaForNCDs\<close> for one entry of
  \<^verbatim>\<open>NetCullDistanceToComponentId\<close>; the entries already visited are collected with their
  values, the keys are not touched.
\<close>

definition GenerateNCDComponent ::
  "Externals \<Rightarrow> float \<times> Worker_ComponentId \<Rightarrow>
   FComponentIdGenerator \<times> (float \<times> Worker_ComponentId) list \<times> FCodeWriter \<Rightarrow>
   error + (FComponentIdGenerator \<times> (float \<times> Worker_ComponentId) list \<times> FCodeWriter)" where
  "GenerateNCDComponent ext = (\<lambda>(Key, Value) (IdGenerator, Visited, Writer).
     let ComponentName = ''NetCullDistanceSquared'' @ FromInt (FloatToUInt64 ext Key);
         WriteIt = (\<lambda>ComponentId.
           Print ''}'' (Outdent
             (Print (''id = '' @ FromInt (unat ComponentId) @ '';'')
                (Indent
                   (Print (''component '' @ UnrealNameToSchemaComponentName ext ComponentName @ '' {'')
                      (Print (''// distance '' @ FormatFloat ext Key) (PrintNewLine Writer)))))))
     in if Value = 0
        then (case Next IdGenerator of
                Inl e \<Rightarrow> Inl e
              | Inr (NewId, g) \<Rightarrow> Inr (g, Visited @ [(Key, NewId)], WriteIt NewId))
        else Inr (IdGenerator, Visited @ [(Key, Value)], WriteIt Value))"

definition GenerateSchemaForNCDs ::
  "Externals \<Rightarrow> string \<Rightarrow> GeneratorState \<times> FileSystem \<Rightarrow> error + (GeneratorState \<times> FileSystem)" where
  "GenerateSchemaForNCDs ext SchemaOutputPath = (\<lambda>(s, fs).
     case ForEach (GenerateNCDComponent ext) (NetCullDistanceToComponentId s)
            (\<lparr>NextId = NextAvailableComponentId s\<rparr>, [], NCDHeader) of
       Inl e \<Rightarrow> Inl e
     | Inr (IdGenerator, Visited, Writer) \<Rightarrow>
         Inr (s\<lparr>NetCullDistanceToComponentId := Visited,
                NextAvailableComponentId := fst (Peek IdGenerator)\<rparr>,
              WriteToFile (SchemaOutputPath @ ''NetCullDistance/ncdcomponents.schema'') Writer fs))"

section \<open>Compiling the schema and saving the database\<close>

definition RunSchemaCompiler :: "Platform \<Rightarrow> FileSystem \<Rightarrow> bool" where
  "RunSchemaCompiler plat fs =
     (if CompiledSchemaDirExists plat \<and> \<not> DeleteCompiledSchemaDir plat then False
      else if \<not> CreateCompiledSchemaDir plat then False
      else if ASTOutputRequested plat \<and> \<not> CreateCompiledSchemaASTDir plat then False
      else ExecSchemaCompiler plat fs = 0)"

definition AddForAllSchemaComponentTypes ::
  "FSchemaComponents \<Rightarrow> string \<Rightarrow> (Worker_ComponentId \<times> string) list \<Rightarrow> (Worker_ComponentId \<times> string) list" where
  "AddForAllSchemaComponentTypes Components ClassPath m =
     fold (\<lambda>Type. TMapAdd (SchemaComponentAt Components Type) ClassPath) AllSchemaComponentTypes m"

definition CreateComponentIdToClassPathMap :: "GeneratorState \<Rightarrow> (Worker_ComponentId \<times> string) list" where
  "CreateComponentIdToClassPathMap s =
     (let m1 = fold (\<lambda>(Key, ActorSchemaData) m.
                   fold (\<lambda>(Offset, SubobjectSchemaData).
                           AddForAllSchemaComponentTypes
                             (SubobjectSchemaComponents SubobjectSchemaData)
                             (SubobjectClassPath SubobjectSchemaData))
                     (SubobjectData ActorSchemaData)
                     (AddForAllSchemaComponentTypes (SchemaComponents ActorSchemaData) Key m))
                (ActorClassPathToSchema s) [];
          m2 = fold (\<lambda>(Key, SubobjectSchemaData).
                   fold (\<lambda>DynamicSubobjectData.
                           AddForAllSchemaComponentTypes DynamicSubobjectData Key)
                     (DynamicSubobjectComponents SubobjectSchemaData))
                (SubobjectClassPathToSchema s) m1
      in AList.delete INVALID_COMPONENT_ID m2)"

text \<open>
  \<^verbatim>\<open>SaveSchemaDatabase\<close>: the three \<^verbatim>\<open>KeySort\<close> calls sort the global maps themselves; the
  database object is filled from the globals; the hash starts at 0 and is replaced only
  when \<^verbatim>\<open>schema.descriptor\<close> opens and is read in full; the package is then saved, and only
  the result of \<^verbatim>\<open>UPackage::SavePackage\<close> decides what is returned. The last argument and
  result is the database package as it is persisted.
\<close>

definition SaveSchemaDatabase ::
  "Externals \<Rightarrow> Platform \<Rightarrow> GeneratorState \<Rightarrow> USchemaDatabase option \<Rightarrow>
   bool \<times> GeneratorState \<times> USchemaDatabase option" where
  "SaveSchemaDatabase ext plat s Persisted =
     (let s1 = s\<lparr>ActorClassPathToSchema := sort_key fst (ActorClassPathToSchema s),
                 SubobjectClassPathToSchema := sort_key fst (SubobjectClassPathToSchema s),
                 LevelPathToComponentId := sort_key fst (LevelPathToComponentId s)\<rparr>;
          Hash = (case OpenReadDescriptor plat of
                    Some FileHandle \<Rightarrow>
                      if ReadSucceeds FileHandle then CityHash32 ext (FileBytes FileHandle) else 0
                  | None \<Rightarrow> 0);
          SchemaDatabase =
            \<lparr>DbNextAvailableComponentId = NextAvailableComponentId s1,
             DbActorClassPathToSchema = ActorClassPathToSchema s1,
             DbSubobjectClassPathToSchema = SubobjectClassPathToSchema s1,
             DbLevelPathToComponentId = LevelPathToComponentId s1,
             DbNetCullDistanceToComponentId = NetCullDistanceToComponentId s1,
             ComponentIdToClassPath = CreateComponentIdToClassPathMap s1,
             DataComponentIds = SchemaComponentTypeToComponents s1 SCHEMA_Data,
             OwnerOnlyComponentIds = SchemaComponentTypeToComponents s1 SCHEMA_OwnerOnly,
             HandoverComponentIds = SchemaComponentTypeToComponents s1 SCHEMA_Handover,
             NetCullDistanceComponentIds = map snd (NetCullDistanceToComponentId s1),
             LevelComponentIds = map snd (LevelPathToComponentId s1),
             SchemaDescriptorHash = Hash\<rparr>
      in if SavePackage plat then (True, s1, Some SchemaDatabase)
         else (False, s1, Persisted))"

section \<open>A full generation run\<close>

definition GetAllSupportedClasses :: "UClass list \<Rightarrow> UClass list" where
  "GetAllSupportedClasses AllClasses = filter IsSupportedClass AllClasses"

text \<open>
  \<^verbatim>\<open>SpatialGDKGenerateSchema\<close>. The state of a run is the generator state, the schema
  files and the persisted database package.
\<close>

definition SpatialGDKGenerateSchema ::
  "Externals \<Rightarrow> Platform \<Rightarrow> UClass list \<Rightarrow> GeneratorState \<times> FileSystem \<times> USchemaDatabase option \<Rightarrow>
   error + (bool \<times> GeneratorState \<times> FileSystem \<times> USchemaDatabase option)" where
  "SpatialGDKGenerateSchema ext plat AllClasses = (\<lambda>(s, fs, Persisted).
     case SpatialGDKGenerateSchemaForClasses ext plat (GetAllSupportedClasses AllClasses)
            (GetGeneratedSchemaOutputFolder plat) (s\<lparr>SchemaGeneratedClasses := []\<rparr>, fs) of
       Inl e \<Rightarrow> Inl e
     | Inr (bClasses, s1, fs1, lg) \<Rightarrow>
         if \<not> bClasses then Inr (False, s1, fs1, Persisted)
         else
           (case GenerateSchemaForSublevels ext (GetGeneratedSchemaOutputFolder plat)
                   (GetLevelNamesToPathsMap plat) (s1, fs1) of
              Inl e \<Rightarrow> Inl e
            | Inr (s2, fs2) \<Rightarrow>
                (case GenerateSchemaForNCDs ext (GetGeneratedSchemaOutputFolder plat)
                        (s2, GenerateRPCEndpointsSchema plat (GetGeneratedSchemaOutputFolder plat) fs2) of
                   Inl e \<Rightarrow> Inl e
                 | Inr (s3, fs3) \<Rightarrow>
                     if \<not> RunSchemaCompiler plat fs3 then Inr (False, s3, fs3, Persisted)
                     else
                       (case SaveSchemaDatabase ext plat s3 Persisted of
                          (bSaved, s4, Persisted1) \<Rightarrow> Inr (bSaved, s4, fs3, Persisted1)))))"


section \<open>A concrete instance for worked examples\<close>

text \<open>
  The examples need values for the parameters. The sanitiser of the examples keeps letters
  and digits, and the underscore unless the flag is set (specification 4.1); a field name
  is the sanitised property name behind \<^verbatim>\<open>field_\<close>; the first generated identifier is
  10000. The example names contain no underscore.
\<close>

definition IsAlnum :: "char \<Rightarrow> bool" where
  "IsAlnum c = (c \<in> set ''ABCDEFGHIJKLMNOPQRSTUVWXYZabcdefghijklmnopqrstuvwxyz0123456789'')"

definition ExampleExternals :: Externals where
  "ExampleExternals =
     \<lparr>UnrealNameToSchemaName = (\<lambda>Name bStrict. filter (\<lambda>c. IsAlnum c \<or> (c = CHR ''_'' \<and> \<not> bStrict)) Name),
      UnrealNameToSchemaComponentName = filter IsAlnum,
      SchemaFieldName = (\<lambda>p. ''field_'' @ filter IsAlnum (PropertyName p)),
      SchemaComponentName = (\<lambda>Name Type.
         case Type of SCHEMA_Data \<Rightarrow> Name
                    | SCHEMA_OwnerOnly \<Rightarrow> Name @ ''OwnerOnly''
                    | SCHEMA_Handover \<Rightarrow> Name @ ''Handover''),
      SchemaFieldLines = (\<lambda>TypeInfo Type. []),
      STARTING_GENERATED_COMPONENT_ID = 10000,
      CityHash32 = (\<lambda>Bytes. of_nat (length Bytes)),
      FormatFloat = (\<lambda>f. FromInt (unat f)),
      FloatToUInt64 = unat,
      GetAssetName = (\<lambda>Path. Path)\<rparr>"

definition ExamplePlatform :: Platform where
  "ExamplePlatform =
     \<lparr>StatData = \<lparr>bIsValid = True, bIsReadOnly = False\<rparr>,
      TryLoad = None,
      GetGeneratedSchemaOutputFolder = ''schema/unreal/generated/'',
      CollapseRelativeDirectories = Some,
      GetLevelNamesToPathsMap = [],
      GenerateRPCEndpointsSchema = (\<lambda>Path fs. fs),
      CompiledSchemaDirExists = False,
      DeleteCompiledSchemaDir = True,
      CreateCompiledSchemaDir = True,
      ASTOutputRequested = False,
      CreateCompiledSchemaASTDir = True,
      ExecSchemaCompiler = (\<lambda>fs. 0),
      OpenReadDescriptor = Some \<lparr>FileBytes = [1, 2, 3], ReadSucceeds = True\<rparr>,
      SavePackage = True\<rparr>"

definition InitialState :: GeneratorState where
  "InitialState =
     \<lparr>SchemaGeneratedClasses = [],
      ActorClassPathToSchema = [],
      SubobjectClassPathToSchema = [],
      NextAvailableComponentId = 10000,
      SchemaComponentTypeToComponents = (\<lambda>Type. []),
      LevelPathToComponentId = [],
      ClassPathToSchemaName = [],
      SchemaNameToClassPath = [],
      PotentialSchemaNameCollisions = [],
      NetCullDistanceToComponentId = []\<rparr>"




definition ExampleDatabase :: "(string \<times> FActorSchemaData) list \<Rightarrow> Worker_ComponentId \<Rightarrow> USchemaDatabase" where
  "ExampleDatabase Actors NextAvailable =
     \<lparr>DbNextAvailableComponentId = NextAvailable,
      DbActorClassPathToSchema = Actors,
      DbSubobjectClassPathToSchema = [],
      DbLevelPathToComponentId = [],
      DbNetCullDistanceToComponentId = [],
      ComponentIdToClassPath = [],
      DataComponentIds = [],
      OwnerOnlyComponentIds = [],
      HandoverComponentIds = [],
      NetCullDistanceComponentIds = [],
      LevelComponentIds = [],
      SchemaDescriptorHash = 0\<rparr>"





section \<open>What counts as a naming violation\<close>










section \<open>The generator never repeats an identifier\<close>

lemma Next_Inr_iff:
  "Next g = Inr (v, g') \<longleftrightarrow> NextId g \<noteq> - 1 \<and> v = NextId g \<and> g' = g\<lparr>NextId := NextId g + 1\<rparr>"
  by (auto simp: Next_def)

lemma unat_Suc_word32:
  fixes w :: Worker_ComponentId
  assumes "w \<noteq> - 1"
  shows "unat (w + 1) = Suc (unat w)"
proof -
  have nz: "w + 1 \<noteq> 0"
    using assms max_word_wrap by blast
  have m: "unat (w + 1) = (unat w + 1) mod 2 ^ 32"
    by (simp add: unat_word_ariths)
  have le: "unat w < 2 ^ 32"
    using unsigned_less [of w] by simp
  have "unat w + 1 \<noteq> 2 ^ 32"
  proof
    assume "unat w + 1 = 2 ^ 32"
    with m have "unat (w + 1) = 0" by simp
    then have "w + 1 = 0" by (simp add: unat_eq_0)
    with nz show False by simp
  qed
  with le have "unat w + 1 < 2 ^ 32" by simp
  with m show ?thesis by simp
qed

lemma not_max_word32:
  fixes w :: Worker_ComponentId
  assumes "unat w + n < 2 ^ 32" and "0 < n"
  shows "w \<noteq> - 1"
proof
  assume "w = - 1"
  then have "unat w = 2 ^ 32 - 1"
    by (simp add: unsigned_minus_1_eq_mask mask_eq_exp_minus_1)
  with assms show False by simp
qed

lemma Next_unat:
  assumes "Next g = Inr (v, g')"
  shows "unat (NextId g') = Suc (unat (NextId g))" and "v = NextId g"
  using assms by (auto simp: Next_Inr_iff unat_Suc_word32)

lemma NextN_props:
  "NextN n g = Inr (vs, g') \<Longrightarrow>
     length vs = n \<and> unat (NextId g') = unat (NextId g) + n \<and>
     (\<forall>v \<in> set vs. unat (NextId g) \<le> unat v \<and> unat v < unat (NextId g')) \<and> distinct vs"
proof (induction n arbitrary: g vs g')
  case 0
  then show ?case by simp
next
  case (Suc n)
  from Suc.prems obtain v g1 ws where
    n1: "Next g = Inr (v, g1)" and rest: "NextN n g1 = Inr (ws, g')" and vs: "vs = v # ws"
    by (auto split: sum.splits prod.splits)
  from Suc.IH [OF rest] have
    ih: "length ws = n" "unat (NextId g') = unat (NextId g1) + n"
        "\<forall>w \<in> set ws. unat (NextId g1) \<le> unat w \<and> unat w < unat (NextId g')" "distinct ws"
    by auto
  from Next_unat [OF n1] have st: "unat (NextId g1) = Suc (unat (NextId g))" "v = NextId g" .
  have "v \<notin> set ws"
  proof
    assume "v \<in> set ws"
    with ih(3) have "unat (NextId g1) \<le> unat v" by blast
    with st show False by simp
  qed
  moreover have "\<forall>w \<in> set vs. unat (NextId g) \<le> unat w \<and> unat w < unat (NextId g')"
    using ih(2,3) st vs by auto
  ultimately show ?case
    using ih st vs by simp
qed

lemma NextN_succeeds:
  "unat (NextId g) + n < 2 ^ 32 \<Longrightarrow> \<exists>vs g'. NextN n g = Inr (vs, g')"
proof (induction n arbitrary: g)
  case 0
  then show ?case by simp
next
  case (Suc n)
  have ne: "NextId g \<noteq> - 1"
    using Suc.prems by (rule not_max_word32) simp
  then have n1: "Next g = Inr (NextId g, g\<lparr>NextId := NextId g + 1\<rparr>)"
    by (simp add: Next_def)
  have "unat (NextId (g\<lparr>NextId := NextId g + 1\<rparr>)) + n < 2 ^ 32"
    using Suc.prems ne by (simp add: unat_Suc_word32)
  from Suc.IH [OF this] obtain vs g' where "NextN n (g\<lparr>NextId := NextId g + 1\<rparr>) = Inr (vs, g')"
    by blast
  with n1 show ?case by simp
qed

text \<open>
  C2. A generator seeded at \<open>N\<close> answers any \<open>n\<close> calls of \<^verbatim>\<open>next()\<close> that fit below the
  end of the 32-bit identifier space; whenever \<open>n\<close> calls return, the values returned are
  pairwise different and none is below \<open>N\<close>; and \<^verbatim>\<open>peek()\<close> on the resulting generator
  leaves it as it is and returns exactly what the following \<^verbatim>\<open>next()\<close> returns.
\<close>

theorem C2_generator_monotonic_unique:
  "(unat N + n < 2 ^ 32 \<longrightarrow> (\<exists>vs g. NextN n \<lparr>NextId = N\<rparr> = Inr (vs, g))) \<and>
   (\<forall>vs g. NextN n \<lparr>NextId = N\<rparr> = Inr (vs, g) \<longrightarrow>
      length vs = n \<and> distinct vs \<and> (\<forall>v \<in> set vs. N \<le> v) \<and>
      snd (Peek g) = g \<and>
      (\<forall>v g'. Next g = Inr (v, g') \<longrightarrow> fst (Peek g) = v))"
proof (intro conjI impI allI)
  assume "unat N + n < 2 ^ 32"
  then show "\<exists>vs g. NextN n \<lparr>NextId = N\<rparr> = Inr (vs, g)"
    using NextN_succeeds [of "\<lparr>NextId = N\<rparr>" n] by simp
next
  fix vs g
  assume run: "NextN n \<lparr>NextId = N\<rparr> = Inr (vs, g)"
  from NextN_props [OF run] show "length vs = n" and "distinct vs"
    by simp_all
  from NextN_props [OF run] show "\<forall>v \<in> set vs. N \<le> v"
    by (simp add: word_le_nat_alt)
  show "snd (Peek g) = g"
    by (simp add: Peek_def)
next
  fix vs g v g'
  assume "Next g = Inr (v, g')"
  then show "fst (Peek g) = v"
    by (simp add: Peek_def Next_Inr_iff)
qed

theorem C2_generator_witness:
  "NextN 3 \<lparr>NextId = 10000\<rparr> = Inr ([10000, 10001, 10002], \<lparr>NextId = 10003\<rparr>) \<and>
   distinct [10000, 10001, 10002 :: Worker_ComponentId] \<and>
   Peek \<lparr>NextId = 10003\<rparr> = (10003, \<lparr>NextId = 10003\<rparr>) \<and>
   Next \<lparr>NextId = 10003\<rparr> = Inr (10003, \<lparr>NextId = 10004\<rparr>)"
proof -
  have run: "NextN 3 \<lparr>NextId = 10000\<rparr> = Inr ([10000, 10001, 10002], \<lparr>NextId = 10003\<rparr>)"
    by (simp add: numeral_3_eq_3 Next_def)
  have nx: "Next \<lparr>NextId = 10003\<rparr> = Inr (10003, \<lparr>NextId = 10004\<rparr>)"
    by (simp add: Next_def)
  from C2_generator_monotonic_unique [of 10000 3] run nx show ?thesis
    by (simp add: Peek_def)
qed


section \<open>Loading rejects a stale database\<close>

lemma Load_stale:
  assumes "DbActorClassPathToSchema db \<noteq> []"
    and "DbNextAvailableComponentId db = STARTING_GENERATED_COMPONENT_ID ext"
    and "TryLoad plat = Some db"
  shows "fst (LoadGeneratorStateFromSchemaDatabase ext plat s) = False"
  using assms by (simp add: LoadGeneratorStateFromSchemaDatabase_def Let_def)

lemma LoadOrReset_after_failure:
  assumes "fst (LoadGeneratorStateFromSchemaDatabase ext plat s) = False"
  shows "LoadOrResetGeneratorState ext plat s =
           ResetSchemaGeneratorState ext (snd (LoadGeneratorStateFromSchemaDatabase ext plat s))"
  using assms
  by (cases "LoadGeneratorStateFromSchemaDatabase ext plat s")
     (simp add: LoadOrResetGeneratorState_def)

text \<open>
  C5. Whatever the stat data of the package say, loading a database that holds at least
  one actor record while its \<^verbatim>\<open>NextAvailableComponentId\<close> is still
  \<^verbatim>\<open>STARTING_GENERATED_COMPONENT_ID\<close> returns failure; the commandlet then continues from
  the reset state: no actor, subobject, level or distance record, no generated class, and
  the counter back at the starting constant.
\<close>

theorem C5_stale_database_rejected:
  assumes "DbActorClassPathToSchema db \<noteq> []"
    and "DbNextAvailableComponentId db = STARTING_GENERATED_COMPONENT_ID ext"
    and "TryLoad plat = Some db"
  shows "fst (LoadGeneratorStateFromSchemaDatabase ext plat s) = False \<and>
         ActorClassPathToSchema (LoadOrResetGeneratorState ext plat s) = [] \<and>
         SubobjectClassPathToSchema (LoadOrResetGeneratorState ext plat s) = [] \<and>
         LevelPathToComponentId (LoadOrResetGeneratorState ext plat s) = [] \<and>
         NetCullDistanceToComponentId (LoadOrResetGeneratorState ext plat s) = [] \<and>
         SchemaGeneratedClasses (LoadOrResetGeneratorState ext plat s) = [] \<and>
         NextAvailableComponentId (LoadOrResetGeneratorState ext plat s) =
           STARTING_GENERATED_COMPONENT_ID ext"
proof -
  have failed: "fst (LoadGeneratorStateFromSchemaDatabase ext plat s) = False"
    using assms by (rule Load_stale)
  from LoadOrReset_after_failure [OF failed] failed show ?thesis
    by (simp add: ResetSchemaGeneratorState_def)
qed

theorem C5_stale_database_witness:
  "DbActorClassPathToSchema
     (ExampleDatabase [(''/Game/A.A_C'', \<lparr>ActorGeneratedSchemaName = ''A'',
        SchemaComponents = \<lparr>DataComponent = 1000, OwnerOnlyComponent = 1001, HandoverComponent = 1002\<rparr>,
        SubobjectData = []\<rparr>)] 10000) \<noteq> [] \<and>
   fst (LoadGeneratorStateFromSchemaDatabase ExampleExternals
     (ExamplePlatform\<lparr>TryLoad := Some (ExampleDatabase [(''/Game/A.A_C'', \<lparr>ActorGeneratedSchemaName = ''A'',
        SchemaComponents = \<lparr>DataComponent = 1000, OwnerOnlyComponent = 1001, HandoverComponent = 1002\<rparr>,
        SubobjectData = []\<rparr>)] 10000)\<rparr>) InitialState) = False \<and>
   ActorClassPathToSchema (LoadOrResetGeneratorState ExampleExternals
     (ExamplePlatform\<lparr>TryLoad := Some (ExampleDatabase [(''/Game/A.A_C'', \<lparr>ActorGeneratedSchemaName = ''A'',
        SchemaComponents = \<lparr>DataComponent = 1000, OwnerOnlyComponent = 1001, HandoverComponent = 1002\<rparr>,
        SubobjectData = []\<rparr>)] 10000)\<rparr>) InitialState) = []"
  using C5_stale_database_rejected [of
    "ExampleDatabase [(''/Game/A.A_C'', \<lparr>ActorGeneratedSchemaName = ''A'',
        SchemaComponents = \<lparr>DataComponent = 1000, OwnerOnlyComponent = 1001, HandoverComponent = 1002\<rparr>,
        SubobjectData = []\<rparr>)] 10000"
    ExampleExternals
    "ExamplePlatform\<lparr>TryLoad := Some (ExampleDatabase [(''/Game/A.A_C'', \<lparr>ActorGeneratedSchemaName = ''A'',
        SchemaComponents = \<lparr>DataComponent = 1000, OwnerOnlyComponent = 1001, HandoverComponent = 1002\<rparr>,
        SubobjectData = []\<rparr>)] 10000)\<rparr>"
    InitialState]
  by (simp add: ExampleDatabase_def ExampleExternals_def ExamplePlatform_def)

section \<open>Saving with an unreadable descriptor\<close>




section \<open>Validation reports every naming violation\<close>


































section \<open>A property collision within one replication group stops the run\<close>



























end
